theory Spec2Isabelle
  imports Main
begin

section \<open>Data model\<close>

text \<open>
  \<^verbatim>\<open>type SquareValue = 'X' | 'O' | null\<close>. The two string literals are the
  constructors \<open>MarkX\<close> and \<open>MarkO\<close>, \<open>null\<close> is \<open>Null\<close>.
\<close>

datatype SquareValue = MarkX | MarkO | Null

text \<open>
  \<^verbatim>\<open>interface MoveHistory { squares: SquareValue[]; position?: number }\<close>.
  The optional field is an \<open>option\<close>. The numbers of the program are integer-valued
  doubles, here \<open>int\<close>: indices of arrays are below \<open>2^32\<close>, where sums and differences
  are exact; the tallies have no bound, and their increment is \<open>js_add1\<close> below.
\<close>

record MoveHistory =
  squares :: "SquareValue list"
  position :: "int option"

text \<open>\<^verbatim>\<open>wins: { X: number, O: number }\<close>\<close>

record Wins =
  winsX :: int
  winsO :: int

text \<open>\<^verbatim>\<open>interface GameState\<close>; the four \<^verbatim>\<open>useState\<close> cells of the first Board
  component hold the same four values under the same names.\<close>

record GameState =
  history :: "MoveHistory list"
  currentMove :: int
  wins :: Wins
  xStartsFirst :: bool

text \<open>Reading a property of \<^verbatim>\<open>undefined\<close> throws a TypeError.\<close>

datatype error = TypeError

section \<open>JavaScript primitives used by the code\<close>

text \<open>\<^verbatim>\<open>xs[i]\<close>: the element when \<open>i\<close> is an index of the array, else
  \<^verbatim>\<open>undefined\<close>, here \<open>None\<close>.\<close>

definition js_get :: "'a list \<Rightarrow> int \<Rightarrow> 'a option" where
  "js_get xs i = (if 0 \<le> i \<and> i < int (length xs) then Some (xs ! nat i) else None)"

text \<open>\<^verbatim>\<open>xs.slice(0, e)\<close>: a negative end counts from the end of the array, and the
  end is clamped to the array.\<close>

definition js_slice0 :: "'a list \<Rightarrow> int \<Rightarrow> 'a list" where
  "js_slice0 xs e =
     (let len = int (length xs);
          final = (if e < 0 then max (len + e) 0 else min e len)
      in take (nat final) xs)"

text \<open>\<^verbatim>\<open>a % b\<close> on integers: the remainder takes the sign of the dividend
  (\<^verbatim>\<open>-1 % 2\<close> is \<^verbatim>\<open>-1\<close>). The code only divides by 2.\<close>

definition js_rem :: "int \<Rightarrow> int \<Rightarrow> int" where
  "js_rem a b = sgn a * (\<bar>a\<bar> mod \<bar>b\<bar>)"

text \<open>
  \<^verbatim>\<open>n + 1\<close> on an integer-valued double \<open>n\<close> (IEEE 754, round to nearest, ties to
  even). From \<open>-2^53\<close> to \<open>2^53 - 1\<close> the sum is a double and the result is exact. A
  double of magnitude \<open>2^53\<close> or more is even, so \<open>n + 1\<close> is not a double: where the
  doubles are 2 apart it lies halfway between \<open>n\<close> and \<open>n + 2\<close> and goes to the one
  with the even significand, the multiple of 4; where they are 4 or more apart \<open>n\<close> is
  a multiple of 4 and nearest. So \<^verbatim>\<open>2**53 + 1\<close> is \<^verbatim>\<open>2**53\<close> and
  \<^verbatim>\<open>(2**53 + 2) + 1\<close> is \<^verbatim>\<open>2**53 + 4\<close>.
\<close>

definition js_add1 :: "int \<Rightarrow> int" where
  "js_add1 n =
     (if - (2 ^ 53) \<le> n \<and> n < 2 ^ 53 then n + 1
      else if n mod 4 = 0 then n
      else n + 2)"

text \<open>Truthiness of a cell read: the non-empty strings \<^verbatim>\<open>'X'\<close> and \<^verbatim>\<open>'O'\<close> are
  truthy, \<^verbatim>\<open>null\<close> and \<^verbatim>\<open>undefined\<close> are falsy.\<close>

definition truthy :: "SquareValue option \<Rightarrow> bool" where
  "truthy v = (v = Some MarkX \<or> v = Some MarkO)"

section \<open>calculateWinner\<close>

text \<open>The table \<^verbatim>\<open>lines\<close> of \<^verbatim>\<open>calculateWinner\<close> (the two copies of the function,
  in the component file and in the slice, are the same text).\<close>

definition lines :: "(int \<times> int \<times> int) list" where
  "lines =
     [(0, 1, 2), (3, 4, 5), (6, 7, 8),
      (0, 3, 6), (1, 4, 7), (2, 5, 8),
      (0, 4, 8), (2, 4, 6)]"

text \<open>
  The \<^verbatim>\<open>for\<close> loop over \<^verbatim>\<open>lines\<close>, as recursion over the rows still to visit.
  \<^verbatim>\<open>return squares[a]\<close> runs only when \<^verbatim>\<open>squares[a]\<close> is truthy, so it returns a
  mark; the \<open>None\<close> branch of the read below is never taken.
\<close>

fun calculateWinner_loop :: "(int \<times> int \<times> int) list \<Rightarrow> SquareValue list \<Rightarrow> SquareValue" where
  "calculateWinner_loop [] sq = Null"
| "calculateWinner_loop ((a, b, c) # rest) sq =
     (if truthy (js_get sq a) \<and> js_get sq a = js_get sq b \<and> js_get sq a = js_get sq c
      then (case js_get sq a of Some v \<Rightarrow> v | None \<Rightarrow> Null)
      else calculateWinner_loop rest sq)"

definition calculateWinner :: "SquareValue list \<Rightarrow> SquareValue" where
  "calculateWinner sq = calculateWinner_loop lines sq"

text \<open>A triple of positions is won by mark \<open>m\<close> on a board: \<open>m\<close> is not \<open>Null\<close> and
  the three cells hold \<open>m\<close>.\<close>

definition line_won :: "SquareValue list \<Rightarrow> int \<times> int \<times> int \<Rightarrow> SquareValue \<Rightarrow> bool" where
  "line_won sq t m =
     (case t of (a, b, c) \<Rightarrow>
        m \<noteq> Null \<and> js_get sq a = Some m \<and> js_get sq b = Some m \<and> js_get sq c = Some m)"

section \<open>The store: the reducers of gameSlice\<close>

text \<open>\<^verbatim>\<open>Array(9).fill(null)\<close> and the record \<^verbatim>\<open>{ squares: Array(9).fill(null) }\<close>,
  which has no \<^verbatim>\<open>position\<close>.\<close>

definition initialRecord :: MoveHistory where
  "initialRecord = \<lparr>squares = replicate 9 Null, position = None\<rparr>"

definition initialState :: GameState where
  "initialState =
     \<lparr>history = [initialRecord], currentMove = 0,
      wins = \<lparr>winsX = 0, winsO = 0\<rparr>, xStartsFirst = True\<rparr>"

text \<open>\<^verbatim>\<open>makeMove\<close>: the payload is \<^verbatim>\<open>{ squares, position }\<close>.\<close>

definition makeMove :: "SquareValue list \<Rightarrow> int \<Rightarrow> GameState \<Rightarrow> GameState" where
  "makeMove sq pos state =
     (let nextHistory =
            js_slice0 (history state) (currentMove state + 1) @ [\<lparr>squares = sq, position = Some pos\<rparr>]
      in state\<lparr>history := nextHistory, currentMove := int (length nextHistory) - 1\<rparr>)"

definition jumpToMove :: "int \<Rightarrow> GameState \<Rightarrow> GameState" where
  "jumpToMove move state = state\<lparr>currentMove := move\<rparr>"

text \<open>The reducers \<^verbatim>\<open>resetGame\<close> and \<^verbatim>\<open>playAgain\<close> of the slice; the functions of the
  same names in the first Board component are \<open>resetGame\<close> and \<open>playAgain\<close> below.\<close>

definition resetGame_slice :: "GameState \<Rightarrow> GameState" where
  "resetGame_slice state = state\<lparr>history := [initialRecord], currentMove := 0\<rparr>"

definition playAgain_slice :: "SquareValue \<Rightarrow> GameState \<Rightarrow> GameState" where
  "playAgain_slice winner state =
     (let state1 =
            (if winner \<noteq> Null
             then (let w = wins state;
                       w' = (if winner = MarkX then w\<lparr>winsX := js_add1 (winsX w)\<rparr>
                             else if winner = MarkO then w\<lparr>winsO := js_add1 (winsO w)\<rparr>
                             else w)
                   in state\<lparr>wins := w', xStartsFirst := (winner = MarkO)\<rparr>)
             else state)
      in state1\<lparr>history := [initialRecord], currentMove := 0\<rparr>)"

text \<open>The selectors. \<^verbatim>\<open>state.game.history[state.game.currentMove].squares\<close> throws when
  the index is not one of the array.\<close>

definition selectCurrentSquares :: "GameState \<Rightarrow> error + SquareValue list" where
  "selectCurrentSquares state =
     (case js_get (history state) (currentMove state) of
        None \<Rightarrow> Inl TypeError
      | Some h \<Rightarrow> Inr (squares h))"

definition selectXIsNext :: "GameState \<Rightarrow> bool" where
  "selectXIsNext state =
     (if xStartsFirst state then js_rem (currentMove state) 2 = 0
      else js_rem (currentMove state) 2 = 1)"

text \<open>
  \<^verbatim>\<open>handleClick\<close> of the Board that reads the store. The component first renders, which
  reads the current board (and throws if there is none); the handler runs on what was
  rendered. \<^verbatim>\<open>currentSquares[i] !== null\<close> is true for \<^verbatim>\<open>undefined\<close> as well, so the
  assignment \<^verbatim>\<open>nextSquare[i] = ...\<close> runs only for an index of the array.
\<close>

definition handleClick :: "int \<Rightarrow> GameState \<Rightarrow> error + GameState" where
  "handleClick i state =
     (case selectCurrentSquares state of
        Inl e \<Rightarrow> Inl e
      | Inr currentSquares \<Rightarrow>
          (let winner = calculateWinner currentSquares in
           if js_get currentSquares i \<noteq> Some Null \<or> winner \<noteq> Null then Inr state
           else (let nextSquare = currentSquares[nat i := (if selectXIsNext state then MarkX else MarkO)]
                 in Inr (makeMove nextSquare i state))))"

text \<open>The button \<^verbatim>\<open>onClick={() => dispatch(playAgain(winner))}\<close> of the same Board.\<close>

definition dispatchPlayAgain :: "GameState \<Rightarrow> error + GameState" where
  "dispatchPlayAgain state =
     (case selectCurrentSquares state of
        Inl e \<Rightarrow> Inl e
      | Inr currentSquares \<Rightarrow> Inr (playAgain_slice (calculateWinner currentSquares) state))"

section \<open>The first Board component, on useState\<close>

text \<open>The state of the component is the four cells; \<^verbatim>\<open>currentSquares\<close>, \<^verbatim>\<open>xIsNext\<close> and
  \<^verbatim>\<open>winner\<close> are computed at each render.\<close>

definition currentSquares :: "GameState \<Rightarrow> error + SquareValue list" where
  "currentSquares state =
     (case js_get (history state) (currentMove state) of
        None \<Rightarrow> Inl TypeError
      | Some h \<Rightarrow> Inr (squares h))"

definition xIsNext :: "GameState \<Rightarrow> bool" where
  "xIsNext state =
     (if xStartsFirst state then js_rem (currentMove state) 2 = 0
      else js_rem (currentMove state) 2 = 1)"

definition handlePlay :: "SquareValue list \<Rightarrow> int \<Rightarrow> GameState \<Rightarrow> GameState" where
  "handlePlay nextSquares pos state =
     (let nextHistory =
            js_slice0 (history state) (currentMove state + 1)
              @ [\<lparr>squares = nextSquares, position = Some pos\<rparr>]
      in state\<lparr>history := nextHistory, currentMove := int (length nextHistory) - 1\<rparr>)"

definition jumpTo :: "int \<Rightarrow> GameState \<Rightarrow> GameState" where
  "jumpTo move state = state\<lparr>currentMove := move\<rparr>"

definition handleCLick :: "int \<Rightarrow> GameState \<Rightarrow> error + GameState" where
  "handleCLick i state =
     (case currentSquares state of
        Inl e \<Rightarrow> Inl e
      | Inr cs \<Rightarrow>
          (let winner = calculateWinner cs in
           if js_get cs i \<noteq> Some Null \<or> winner \<noteq> Null then Inr state
           else (let nextSquare = cs[nat i := (if xIsNext state then MarkX else MarkO)]
                 in Inr (handlePlay nextSquare i state))))"

definition resetGame :: "GameState \<Rightarrow> GameState" where
  "resetGame state = state\<lparr>history := [initialRecord], currentMove := 0\<rparr>"

text \<open>\<^verbatim>\<open>playAgain\<close> closes over the \<^verbatim>\<open>winner\<close> of the render; \<open>playAgain_with\<close> is its
  body with that constant as a parameter. \<^verbatim>\<open>[winner]: prevWins[winner] + 1\<close> updates
  the field named by the winner.\<close>

definition playAgain_with :: "SquareValue \<Rightarrow> GameState \<Rightarrow> GameState" where
  "playAgain_with winner state =
     (let state1 =
            (if winner \<noteq> Null
             then state\<lparr>wins := (let prevWins = wins state in
                                 if winner = MarkX then prevWins\<lparr>winsX := js_add1 (winsX prevWins)\<rparr>
                                 else prevWins\<lparr>winsO := js_add1 (winsO prevWins)\<rparr>),
                         xStartsFirst := (winner = MarkO)\<rparr>
             else state)
      in resetGame state1)"

definition playAgain :: "GameState \<Rightarrow> error + GameState" where
  "playAgain state =
     (case currentSquares state of
        Inl e \<Rightarrow> Inl e
      | Inr cs \<Rightarrow> Inr (playAgain_with (calculateWinner cs) state))"

text \<open>The label of a move in the history list, for \<^verbatim>\<open>moveIndex\<close> other than 0 (index 0
  is the button "Reset Game", with no player). The two Board components have the same
  expression.\<close>

definition moves_player :: "bool \<Rightarrow> nat \<Rightarrow> SquareValue" where
  "moves_player xStarts moveIndex =
     (if xStarts then (if js_rem (int moveIndex) 2 = 1 then MarkX else MarkO)
      else (if js_rem (int moveIndex) 2 = 1 then MarkO else MarkX))"

text \<open>The status line names the player to move: \<^verbatim>\<open>const nextPlayer = xIsNext ? 'X' : 'O'\<close>,
  in the store's Board and in the first Board.\<close>

definition nextPlayer_slice :: "GameState \<Rightarrow> SquareValue" where
  "nextPlayer_slice state = (if selectXIsNext state then MarkX else MarkO)"

definition nextPlayer :: "GameState \<Rightarrow> SquareValue" where
  "nextPlayer state = (if xIsNext state then MarkX else MarkO)"

section \<open>Sequences of transitions\<close>

text \<open>
  The four transitions of the store, each under the precondition the specification
  states for it: a move is applied at a position that is empty on the current board,
  which has no winner; a jump goes to an index of the history. A transition whose
  precondition fails is not part of a sequence (\<open>None\<close>).
\<close>

datatype action = ApplyMove int | JumpTo int | ResetRound | StartNextRound SquareValue

fun step :: "action \<Rightarrow> GameState \<Rightarrow> GameState option" where
  "step (ApplyMove p) state =
     (case selectCurrentSquares state of
        Inl e \<Rightarrow> None
      | Inr cs \<Rightarrow>
          if js_get cs p = Some Null \<and> calculateWinner cs = Null
          then (case handleClick p state of Inl e \<Rightarrow> None | Inr state' \<Rightarrow> Some state')
          else None)"
| "step (JumpTo k) state =
     (if 0 \<le> k \<and> k < int (length (history state)) then Some (jumpToMove k state) else None)"
| "step ResetRound state = Some (resetGame_slice state)"
| "step (StartNextRound winner) state = Some (playAgain_slice winner state)"

fun run :: "action list \<Rightarrow> GameState \<Rightarrow> GameState option" where
  "run [] state = Some state"
| "run (a # as) state = (case step a state of None \<Rightarrow> None | Some state' \<Rightarrow> run as state')"

text \<open>The invariants of the data model: the history is not empty and starts with the
  initial record, and the current index points into it.\<close>

definition history_ok :: "GameState \<Rightarrow> bool" where
  "history_ok state =
     (history state \<noteq> [] \<and> hd (history state) = initialRecord
      \<and> 0 \<le> currentMove state \<and> currentMove state < int (length (history state)))"

section \<open>The win check\<close>

lemma loop_hit:
  assumes "line_won sq (a, b, c) m"
  shows "calculateWinner_loop ((a, b, c) # rest) sq = m"
proof -
  from assms have m: "m \<noteq> Null" "js_get sq a = Some m" "js_get sq b = Some m"
      "js_get sq c = Some m"
    by (simp_all add: line_won_def)
  from m(1) have "m = MarkX \<or> m = MarkO" by (cases m) simp_all
  with m show ?thesis by (auto simp: truthy_def)
qed

lemma loop_skip:
  assumes "\<And>m. \<not> line_won sq (a, b, c) m"
  shows "calculateWinner_loop ((a, b, c) # rest) sq = calculateWinner_loop rest sq"
proof (cases "js_get sq a")
  case None
  then show ?thesis by (simp add: truthy_def)
next
  case (Some m)
  show ?thesis
  proof (cases "m = Null")
    case True
    with Some show ?thesis by (simp add: truthy_def)
  next
    case False
    with assms [of m] Some have "js_get sq b \<noteq> Some m \<or> js_get sq c \<noteq> Some m"
      by (simp add: line_won_def)
    with Some show ?thesis by auto
  qed
qed

lemma loop_no_line:
  "(\<And>t m. t \<in> set ls \<Longrightarrow> \<not> line_won sq t m) \<Longrightarrow> calculateWinner_loop ls sq = Null"
proof (induction ls)
  case Nil
  show ?case by simp
next
  case (Cons t ls)
  obtain a b c where t: "t = (a, b, c)" by (cases t)
  have "calculateWinner_loop (t # ls) sq = calculateWinner_loop ls sq"
    unfolding t using Cons.prems [of t] by (intro loop_skip) (simp add: t)
  also have "\<dots> = Null"
    using Cons.prems by (intro Cons.IH) auto
  finally show ?case .
qed

lemma loop_first_line:
  "n < length ls \<Longrightarrow> line_won sq (ls ! n) m \<Longrightarrow>
   (\<And>n' m'. n' < n \<Longrightarrow> \<not> line_won sq (ls ! n') m') \<Longrightarrow>
   calculateWinner_loop ls sq = m"
proof (induction ls arbitrary: n)
  case Nil
  then show ?case by simp
next
  case (Cons t ls)
  obtain a b c where t: "t = (a, b, c)" by (cases t)
  show ?case
  proof (cases n)
    case 0
    with Cons.prems(2) have "line_won sq (a, b, c) m"
      by (simp add: t)
    then show ?thesis
      unfolding t by (rule loop_hit)
  next
    case (Suc k)
    have "calculateWinner_loop (t # ls) sq = calculateWinner_loop ls sq"
      unfolding t using Cons.prems(3) [of 0] Suc by (intro loop_skip) (simp add: t)
    also have "\<dots> = m"
    proof (rule Cons.IH [of k])
      show "k < length ls" using Cons.prems(1) Suc by simp
      show "line_won sq (ls ! k) m" using Cons.prems(2) Suc by simp
      show "\<not> line_won sq (ls ! n') m'" if "n' < k" for n' m'
        using Cons.prems(3) [of "Suc n'" m'] that Suc by simp
    qed
    finally show ?thesis .
  qed
qed

lemma loop_some_line:
  "t \<in> set ls \<Longrightarrow> line_won sq t m \<Longrightarrow> \<exists>t' \<in> set ls. line_won sq t' (calculateWinner_loop ls sq)"
proof (induction ls)
  case Nil
  then show ?case by simp
next
  case (Cons u ls)
  obtain a b c where u: "u = (a, b, c)" by (cases u)
  show ?case
  proof (cases "\<exists>m'. line_won sq (a, b, c) m'")
    case True
    then obtain m' where won: "line_won sq (a, b, c) m'" ..
    then have "calculateWinner_loop (u # ls) sq = m'"
      unfolding u by (rule loop_hit)
    with won show ?thesis
      by (simp add: u)
  next
    case False
    then have skip: "calculateWinner_loop (u # ls) sq = calculateWinner_loop ls sq"
      unfolding u by (intro loop_skip) blast
    from False Cons.prems have "t \<in> set ls"
      by (auto simp: u)
    then have "\<exists>t' \<in> set ls. line_won sq t' (calculateWinner_loop ls sq)"
      using Cons.prems(2) by (rule Cons.IH)
    then show ?thesis
      by (auto simp: skip)
  qed
qed

text \<open>
  C1. On every board, when no triple of \<open>lines\<close> is won, \<open>calculateWinner\<close> returns
  \<open>Null\<close>; when some triple holds three equal non-\<open>Null\<close> marks, the first such triple
  in the order of the table decides: \<open>calculateWinner\<close> returns its mark, and in any
  case the result is then the mark of a won triple. The table is the eight triples
  (0,1,2), (3,4,5), (6,7,8), (0,3,6), (1,4,7), (2,5,8), (0,4,8), (2,4,6). The board may
  have any length, so the nine-cell boards are covered.
\<close>

theorem calculateWinner_lines:
  "lines = [(0, 1, 2), (3, 4, 5), (6, 7, 8), (0, 3, 6), (1, 4, 7), (2, 5, 8), (0, 4, 8), (2, 4, 6)]
   \<and> ((\<forall>t \<in> set lines. \<forall>m. \<not> line_won sq t m) \<longrightarrow> calculateWinner sq = Null)
   \<and> (\<forall>n < length lines. \<forall>m.
        line_won sq (lines ! n) m \<and> (\<forall>n' < n. \<forall>m'. \<not> line_won sq (lines ! n') m')
        \<longrightarrow> calculateWinner sq = m \<and> m \<noteq> Null)
   \<and> (\<forall>t \<in> set lines. \<forall>m. line_won sq t m \<longrightarrow>
        calculateWinner sq \<noteq> Null \<and> (\<exists>t' \<in> set lines. line_won sq t' (calculateWinner sq)))"
proof (intro conjI allI impI ballI)
  show "lines = [(0, 1, 2), (3, 4, 5), (6, 7, 8), (0, 3, 6), (1, 4, 7), (2, 5, 8), (0, 4, 8), (2, 4, 6)]"
    by (simp add: lines_def)
next
  assume "\<forall>t \<in> set lines. \<forall>m. \<not> line_won sq t m"
  then show "calculateWinner sq = Null"
    unfolding calculateWinner_def by (intro loop_no_line) blast
next
  fix n m
  assume n: "n < length lines"
    and h: "line_won sq (lines ! n) m \<and> (\<forall>n' < n. \<forall>m'. \<not> line_won sq (lines ! n') m')"
  show "calculateWinner sq = m"
    unfolding calculateWinner_def using n h by (intro loop_first_line [of n]) blast+
  obtain a b c where "lines ! n = (a, b, c)" by (cases "lines ! n")
  with h show "m \<noteq> Null"
    by (simp add: line_won_def)
next
  fix t m
  assume "t \<in> set lines" and "line_won sq t m"
  then show some: "\<exists>t' \<in> set lines. line_won sq t' (calculateWinner sq)"
    unfolding calculateWinner_def by (rule loop_some_line)
  then obtain t' where "line_won sq t' (calculateWinner sq)" ..
  then show "calculateWinner sq \<noteq> Null"
    by (cases t') (simp add: line_won_def)
qed

theorem calculateWinner_lines_witness:
  "line_won [MarkO, MarkO, Null, MarkX, MarkX, MarkX, Null, Null, MarkO] (lines ! 1) MarkX
   \<and> (\<forall>m'. \<not> line_won [MarkO, MarkO, Null, MarkX, MarkX, MarkX, Null, Null, MarkO] (lines ! 0) m')
   \<and> calculateWinner [MarkO, MarkO, Null, MarkX, MarkX, MarkX, Null, Null, MarkO] = MarkX
   \<and> (\<nexists>t m. t \<in> set lines
         \<and> line_won [MarkX, MarkO, MarkX, MarkX, MarkO, MarkO, MarkO, MarkX, MarkX] t m)
   \<and> calculateWinner [MarkX, MarkO, MarkX, MarkX, MarkO, MarkO, MarkO, MarkX, MarkX] = Null"
proof -
  let ?b = "[MarkO, MarkO, Null, MarkX, MarkX, MarkX, Null, Null, MarkO]"
  let ?d = "[MarkX, MarkO, MarkX, MarkX, MarkO, MarkO, MarkO, MarkX, MarkX]"
  have 1: "line_won ?b (lines ! 1) MarkX"
    by (simp add: line_won_def lines_def js_get_def)
  have 2: "\<forall>n' < (1::nat). \<forall>m'. \<not> line_won ?b (lines ! n') m'"
    by (simp add: line_won_def lines_def js_get_def)
  have 3: "(1::nat) < length lines"
    by (simp add: lines_def)
  have 4: "\<forall>t \<in> set lines. \<forall>m. \<not> line_won ?d t m"
    by (simp add: line_won_def lines_def js_get_def)
  from calculateWinner_lines [of ?b] 1 2 3 have "calculateWinner ?b = MarkX"
    by blast
  moreover from calculateWinner_lines [of ?d] 4 have "calculateWinner ?d = Null"
    by blast
  ultimately show ?thesis
    using 1 2 4 by auto
qed


section \<open>Facts about the primitives\<close>

text \<open>The definitions that evaluate a click on a concrete state.\<close>

lemmas eval_defs =
  initialState_def initialRecord_def handleClick_def handleCLick_def selectCurrentSquares_def
  currentSquares_def js_get_def calculateWinner_def lines_def truthy_def selectXIsNext_def
  xIsNext_def js_rem_def js_add1_def makeMove_def handlePlay_def js_slice0_def Let_def
  eval_nat_numeral

lemma js_rem_2_nonneg: "0 \<le> a \<Longrightarrow> js_rem a 2 = a mod 2"
  by (simp add: js_rem_def sgn_if)

lemma js_rem_2_even: "0 \<le> a \<Longrightarrow> js_rem a 2 = 0 \<longleftrightarrow> even a"
  by (simp add: js_rem_2_nonneg even_iff_mod_2_eq_zero)

lemma js_rem_2_odd: "0 \<le> a \<Longrightarrow> js_rem a 2 = 1 \<longleftrightarrow> odd a"
  by (simp add: js_rem_2_nonneg odd_iff_mod_2_eq_one)

lemma js_get_Some_iff:
  "js_get xs i = Some v \<longleftrightarrow> 0 \<le> i \<and> i < int (length xs) \<and> xs ! nat i = v"
  by (auto simp: js_get_def)

lemma js_get_None_iff: "js_get xs i = None \<longleftrightarrow> \<not> (0 \<le> i \<and> i < int (length xs))"
  by (simp add: js_get_def)

lemma js_slice0_in_range:
  "0 \<le> k \<Longrightarrow> k < int (length xs) \<Longrightarrow> js_slice0 xs (k + 1) = take (nat k + 1) xs"
  by (simp add: js_slice0_def Let_def min_def nat_add_distrib)

section \<open>The two implementations agree\<close>

lemma handlePlay_makeMove: "handlePlay sq pos s = makeMove sq pos s"
  by (simp add: handlePlay_def makeMove_def)

lemma playAgain_with_slice: "playAgain_with w s = playAgain_slice w s"
  by (cases w) (simp_all add: playAgain_with_def playAgain_slice_def resetGame_def Let_def)

lemma currentSquares_select: "currentSquares s = selectCurrentSquares s"
  by (simp add: currentSquares_def selectCurrentSquares_def)

lemma xIsNext_select: "xIsNext s = selectXIsNext s"
  by (simp add: xIsNext_def selectXIsNext_def)

lemma handleCLick_handleClick: "handleCLick i s = handleClick i s"
  unfolding handleCLick_def handleClick_def currentSquares_select xIsNext_select
    handlePlay_makeMove by (rule refl)

text \<open>
  C9. The functions of the first Board component (on useState) and the reducers and
  handlers of the store's Board are the same state transitions: from the same state
  and with the same arguments, \<open>handlePlay\<close> and \<open>makeMove\<close>, \<open>jumpTo\<close> and
  \<open>jumpToMove\<close>, the two \<open>resetGame\<close>, the two \<open>playAgain\<close> (for the same winner),
  the two click handlers and the two play-again buttons give the same state, and
  the two components read the same current board and the same player to move.
\<close>

theorem useState_redux_same:
  "handlePlay sq pos s = makeMove sq pos s
   \<and> jumpTo k s = jumpToMove k s
   \<and> resetGame s = resetGame_slice s
   \<and> playAgain_with w s = playAgain_slice w s
   \<and> currentSquares s = selectCurrentSquares s
   \<and> xIsNext s = selectXIsNext s
   \<and> handleCLick i s = handleClick i s
   \<and> playAgain s = dispatchPlayAgain s"
proof (intro conjI)
  show "playAgain_with w s = playAgain_slice w s"
    by (rule playAgain_with_slice)
  show "playAgain s = dispatchPlayAgain s"
    unfolding playAgain_def dispatchPlayAgain_def currentSquares_select playAgain_with_slice
    by (rule refl)
qed (simp_all add: handlePlay_makeMove jumpTo_def jumpToMove_def resetGame_def
    resetGame_slice_def currentSquares_select xIsNext_select handleCLick_handleClick)


theorem useState_redux_same_witness:
  "handleCLick 4 initialState = handleClick 4 initialState
   \<and> playAgain initialState = dispatchPlayAgain initialState
   \<and> playAgain_with MarkO initialState = playAgain_slice MarkO initialState"
  using useState_redux_same [of _ _ initialState _ MarkO 4] by blast

section \<open>Moves\<close>

lemma makeMove_in_range:
  assumes "0 \<le> currentMove s" and "currentMove s < int (length (history s))"
  shows "makeMove sq pos s =
           s\<lparr>history := take (nat (currentMove s) + 1) (history s)
                          @ [\<lparr>squares = sq, position = Some pos\<rparr>],
             currentMove := currentMove s + 1\<rparr>"
proof -
  have "js_slice0 (history s) (currentMove s + 1) = take (nat (currentMove s) + 1) (history s)"
    using assms by (rule js_slice0_in_range)
  moreover have "int (length (take (nat (currentMove s) + 1) (history s))) = currentMove s + 1"
    using assms by (auto simp: min_def)
  ultimately show ?thesis
    by (simp add: makeMove_def Let_def)
qed

lemma selectCurrentSquares_Inr:
  "selectCurrentSquares s = Inr cs \<longleftrightarrow>
   0 \<le> currentMove s \<and> currentMove s < int (length (history s))
   \<and> cs = squares (history s ! nat (currentMove s))"
  by (auto simp: selectCurrentSquares_def js_get_def)

lemma handleClick_legal:
  assumes "selectCurrentSquares s = Inr cs" and "js_get cs p = Some Null"
    and "calculateWinner cs = Null"
  shows "handleClick p s =
           Inr (s\<lparr>history := take (nat (currentMove s) + 1) (history s)
                   @ [\<lparr>squares = cs[nat p := (if selectXIsNext s then MarkX else MarkO)],
                       position = Some p\<rparr>],
                  currentMove := currentMove s + 1\<rparr>)"
proof -
  from assms(1) have "0 \<le> currentMove s" "currentMove s < int (length (history s))"
    by (simp_all add: selectCurrentSquares_Inr)
  then show ?thesis
    using assms by (simp add: handleClick_def makeMove_in_range)
qed

text \<open>
  C5. In a state whose current board \<open>cs\<close> holds \<open>Null\<close> at position \<open>p\<close> and has no
  winner, a click on \<open>p\<close> (in either Board) appends, after the record of the current
  board, one record whose board has the length of \<open>cs\<close> and differs from \<open>cs\<close> in cell
  \<open>p\<close> only, which goes from \<open>Null\<close> to the mark of the player to move by the parity
  rule: with the flag true X at an even current index and O at an odd one, with the
  flag false O at an even index and X at an odd one. The current index becomes the
  length of the new history minus 1.
\<close>

theorem applyMove_one_cell:
  assumes "selectCurrentSquares s = Inr cs" and "js_get cs p = Some Null"
    and "calculateWinner cs = Null"
  shows "\<exists>s' b. handleClick p s = Inr s' \<and> handleCLick p s = Inr s'
           \<and> history s' = take (nat (currentMove s) + 1) (history s)
                            @ [\<lparr>squares = b, position = Some p\<rparr>]
           \<and> cs = squares (history s ! nat (currentMove s))
           \<and> length b = length cs \<and> nat p < length cs
           \<and> cs ! nat p = Null \<and> b ! nat p = nextPlayer_slice s \<and> b ! nat p \<noteq> Null
           \<and> b ! nat p =
               (if xStartsFirst s then (if even (currentMove s) then MarkX else MarkO)
                else (if even (currentMove s) then MarkO else MarkX))
           \<and> (\<forall>j < length cs. j \<noteq> nat p \<longrightarrow> b ! j = cs ! j)
           \<and> currentMove s' = int (length (history s')) - 1
           \<and> wins s' = wins s \<and> xStartsFirst s' = xStartsFirst s"
proof -
  define m where "m = (if selectXIsNext s then MarkX else MarkO)"
  define b where "b = cs[nat p := m]"
  define s' where "s' = s\<lparr>history := take (nat (currentMove s) + 1) (history s)
                   @ [\<lparr>squares = b, position = Some p\<rparr>],
              currentMove := currentMove s + 1\<rparr>"
  from assms(1) have cm: "0 \<le> currentMove s" "currentMove s < int (length (history s))"
    and cs: "cs = squares (history s ! nat (currentMove s))"
    by (simp_all add: selectCurrentSquares_Inr)
  from assms(2) have p: "nat p < length cs" "cs ! nat p = Null"
    by (auto simp: js_get_Some_iff)
  have click: "handleClick p s = Inr s'"
    unfolding s'_def b_def m_def using assms by (rule handleClick_legal)
  then have click': "handleCLick p s = Inr s'"
    by (simp add: handleCLick_handleClick)
  have hist: "history s' = take (nat (currentMove s) + 1) (history s)
                            @ [\<lparr>squares = b, position = Some p\<rparr>]"
    by (simp add: s'_def)
  have len: "currentMove s' = int (length (history s')) - 1"
    using cm by (auto simp: s'_def min_def)
  have rest: "wins s' = wins s" "xStartsFirst s' = xStartsFirst s"
    by (simp_all add: s'_def)
  have lb: "length b = length cs"
    by (simp add: b_def)
  have cell: "b ! nat p = m"
    using p by (simp add: b_def)
  have others: "\<forall>j < length cs. j \<noteq> nat p \<longrightarrow> b ! j = cs ! j"
    by (simp add: b_def)
  have next_player: "m = nextPlayer_slice s"
    by (simp add: m_def nextPlayer_slice_def)
  have not_null: "m \<noteq> Null"
    by (simp add: m_def)
  have parity: "m = (if xStartsFirst s then (if even (currentMove s) then MarkX else MarkO)
                else (if even (currentMove s) then MarkO else MarkX))"
    using cm(1) by (simp add: m_def selectXIsNext_def js_rem_2_even js_rem_2_odd)
  have "handleClick p s = Inr s' \<and> handleCLick p s = Inr s'
        \<and> history s' = take (nat (currentMove s) + 1) (history s)
                            @ [\<lparr>squares = b, position = Some p\<rparr>]
        \<and> cs = squares (history s ! nat (currentMove s))
        \<and> length b = length cs \<and> nat p < length cs
        \<and> cs ! nat p = Null \<and> b ! nat p = nextPlayer_slice s \<and> b ! nat p \<noteq> Null
        \<and> b ! nat p =
               (if xStartsFirst s then (if even (currentMove s) then MarkX else MarkO)
                else (if even (currentMove s) then MarkO else MarkX))
        \<and> (\<forall>j < length cs. j \<noteq> nat p \<longrightarrow> b ! j = cs ! j)
        \<and> currentMove s' = int (length (history s')) - 1
        \<and> wins s' = wins s \<and> xStartsFirst s' = xStartsFirst s"
    unfolding cell
    using click click' hist cs lb p next_player not_null parity others len rest
    by (intro conjI)
  then show ?thesis by blast
qed

theorem applyMove_one_cell_witness:
  "selectCurrentSquares initialState = Inr (replicate 9 Null)
   \<and> js_get (replicate 9 Null) 4 = Some Null
   \<and> calculateWinner (replicate 9 Null) = Null
   \<and> xStartsFirst initialState \<and> even (currentMove initialState)
   \<and> (\<exists>s' b. handleClick 4 initialState = Inr s' \<and> handleCLick 4 initialState = Inr s'
         \<and> history s' = take (nat (currentMove initialState) + 1) (history initialState)
                          @ [\<lparr>squares = b, position = Some 4\<rparr>]
         \<and> length b = length (replicate 9 Null :: SquareValue list)
         \<and> replicate 9 Null ! nat 4 = Null \<and> b ! nat 4 = MarkX
         \<and> (\<forall>j < length (replicate 9 Null :: SquareValue list). j \<noteq> nat 4 \<longrightarrow> b ! j = replicate 9 Null ! j)
         \<and> currentMove s' = int (length (history s')) - 1
         \<and> wins s' = wins initialState \<and> xStartsFirst s' = xStartsFirst initialState)"
proof -
  have 1: "selectCurrentSquares initialState = Inr (replicate 9 Null)"
    by (simp add: selectCurrentSquares_def initialState_def initialRecord_def js_get_def)
  have 2: "js_get (replicate 9 Null) 4 = Some Null"
    by (simp add: js_get_def)
  have 3: "calculateWinner (replicate 9 Null) = Null"
    by (simp add: calculateWinner_def lines_def js_get_def truthy_def)
  have 4: "xStartsFirst initialState" "even (currentMove initialState)"
    by (simp_all add: initialState_def)
  from applyMove_one_cell [OF 1 2 3] obtain s' b where
    r: "handleClick 4 initialState = Inr s'" "handleCLick 4 initialState = Inr s'"
      "history s' = take (nat (currentMove initialState) + 1) (history initialState)
                          @ [\<lparr>squares = b, position = Some 4\<rparr>]"
      "length b = length (replicate 9 Null :: SquareValue list)"
      "replicate 9 Null ! nat 4 = (Null :: SquareValue)"
      "b ! nat 4 =
         (if xStartsFirst initialState
          then (if even (currentMove initialState) then MarkX else MarkO)
          else (if even (currentMove initialState) then MarkO else MarkX))"
      "\<forall>j < length (replicate 9 Null :: SquareValue list). j \<noteq> nat 4 \<longrightarrow> b ! j = replicate 9 Null ! j"
      "currentMove s' = int (length (history s')) - 1"
      "wins s' = wins initialState" "xStartsFirst s' = xStartsFirst initialState"
    by blast
  from r(6) 4 have "b ! nat 4 = MarkX"
    by simp
  with r have "\<exists>s' b. handleClick 4 initialState = Inr s' \<and> handleCLick 4 initialState = Inr s'
         \<and> history s' = take (nat (currentMove initialState) + 1) (history initialState)
                          @ [\<lparr>squares = b, position = Some 4\<rparr>]
         \<and> length b = length (replicate 9 Null :: SquareValue list)
         \<and> replicate 9 Null ! nat 4 = Null \<and> b ! nat 4 = MarkX
         \<and> (\<forall>j < length (replicate 9 Null :: SquareValue list). j \<noteq> nat 4 \<longrightarrow> b ! j = replicate 9 Null ! j)
         \<and> currentMove s' = int (length (history s')) - 1
         \<and> wins s' = wins initialState \<and> xStartsFirst s' = xStartsFirst initialState"
    by blast
  with 1 2 3 4 show ?thesis
    by (intro conjI)
qed

text \<open>
  C3. For a history of length \<open>n\<close> and an index \<open>0 \<le> k < n\<close>: a jump to \<open>k\<close> followed
  by a move at a legal position (empty on the board at \<open>k\<close>, which has no winner)
  gives the first \<open>k + 1\<close> records of the old history followed by exactly one new
  record, with current index \<open>k + 1\<close>; the records after index \<open>k\<close> are gone. The
  same holds of the reducer for any payload.
\<close>

theorem jump_then_move_truncates:
  assumes "0 \<le> k" and "k < int (length (history s))"
    and "js_get (squares (history s ! nat k)) p = Some Null"
    and "calculateWinner (squares (history s ! nat k)) = Null"
  shows "handleClick p (jumpToMove k s) =
           Inr (s\<lparr>history := take (nat k + 1) (history s)
                   @ [\<lparr>squares = (squares (history s ! nat k))
                                   [nat p := (if selectXIsNext (jumpToMove k s) then MarkX else MarkO)],
                       position = Some p\<rparr>],
                  currentMove := k + 1\<rparr>)
         \<and> handleCLick p (jumpTo k s) = handleClick p (jumpToMove k s)
         \<and> makeMove sq pos (jumpToMove k s) =
             s\<lparr>history := take (nat k + 1) (history s) @ [\<lparr>squares = sq, position = Some pos\<rparr>],
               currentMove := k + 1\<rparr>
         \<and> handlePlay sq pos (jumpTo k s) = makeMove sq pos (jumpToMove k s)"
proof (intro conjI)
  let ?j = "jumpToMove k s"
  have cm: "currentMove ?j = k" and h: "history ?j = history s"
    by (simp_all add: jumpToMove_def)
  have sel: "selectCurrentSquares ?j = Inr (squares (history s ! nat k))"
    using assms(1,2) by (simp add: selectCurrentSquares_Inr cm h)
  have "handleClick p ?j =
          Inr (?j\<lparr>history := take (nat (currentMove ?j) + 1) (history ?j)
                   @ [\<lparr>squares = (squares (history s ! nat k))
                                   [nat p := (if selectXIsNext ?j then MarkX else MarkO)],
                       position = Some p\<rparr>],
                  currentMove := currentMove ?j + 1\<rparr>)"
    using sel assms(3,4) by (rule handleClick_legal)
  then show "handleClick p ?j =
           Inr (s\<lparr>history := take (nat k + 1) (history s)
                   @ [\<lparr>squares = (squares (history s ! nat k))
                                   [nat p := (if selectXIsNext ?j then MarkX else MarkO)],
                       position = Some p\<rparr>],
                  currentMove := k + 1\<rparr>)"
    by (simp add: cm h) (simp add: jumpToMove_def)
  show "handleCLick p (jumpTo k s) = handleClick p ?j"
    by (simp add: handleCLick_handleClick jumpTo_def jumpToMove_def)
  have "makeMove sq pos ?j =
          ?j\<lparr>history := take (nat (currentMove ?j) + 1) (history ?j)
                 @ [\<lparr>squares = sq, position = Some pos\<rparr>],
             currentMove := currentMove ?j + 1\<rparr>"
    using assms(1,2) by (intro makeMove_in_range) (simp_all add: cm h)
  then show "makeMove sq pos ?j =
             s\<lparr>history := take (nat k + 1) (history s) @ [\<lparr>squares = sq, position = Some pos\<rparr>],
               currentMove := k + 1\<rparr>"
    by (simp add: cm h) (simp add: jumpToMove_def)
  show "handlePlay sq pos (jumpTo k s) = makeMove sq pos ?j"
    by (simp add: handlePlay_makeMove jumpTo_def jumpToMove_def)
qed

theorem jump_then_move_truncates_witness:
  "(0::int) \<le> 1
   \<and> 1 < int (length (history
       \<lparr>history = [initialRecord,
          \<lparr>squares = [Null, Null, Null, Null, MarkX, Null, Null, Null, Null], position = Some 4\<rparr>,
          \<lparr>squares = [MarkO, Null, Null, Null, MarkX, Null, Null, Null, Null], position = Some 0\<rparr>],
        currentMove = 2, wins = \<lparr>winsX = 0, winsO = 0\<rparr>, xStartsFirst = True\<rparr>))
   \<and> handleClick 8 (jumpToMove 1
       \<lparr>history = [initialRecord,
          \<lparr>squares = [Null, Null, Null, Null, MarkX, Null, Null, Null, Null], position = Some 4\<rparr>,
          \<lparr>squares = [MarkO, Null, Null, Null, MarkX, Null, Null, Null, Null], position = Some 0\<rparr>],
        currentMove = 2, wins = \<lparr>winsX = 0, winsO = 0\<rparr>, xStartsFirst = True\<rparr>)
     = Inr \<lparr>history = [initialRecord,
          \<lparr>squares = [Null, Null, Null, Null, MarkX, Null, Null, Null, Null], position = Some 4\<rparr>,
          \<lparr>squares = [Null, Null, Null, Null, MarkX, Null, Null, Null, MarkO], position = Some 8\<rparr>],
        currentMove = 2, wins = \<lparr>winsX = 0, winsO = 0\<rparr>, xStartsFirst = True\<rparr>"
proof -
  let ?b = "[Null, Null, Null, Null, MarkX, Null, Null, Null, Null]"
  let ?s = "\<lparr>history = [initialRecord,
          \<lparr>squares = ?b, position = Some 4\<rparr>,
          \<lparr>squares = [MarkO, Null, Null, Null, MarkX, Null, Null, Null, Null], position = Some 0\<rparr>],
        currentMove = 2, wins = \<lparr>winsX = 0, winsO = 0\<rparr>, xStartsFirst = True\<rparr>"
  have 1: "(0::int) \<le> 1" by simp
  have 2: "1 < int (length (history ?s))" by simp
  have b: "squares (history ?s ! nat 1) = ?b" by simp
  have 3: "js_get (squares (history ?s ! nat 1)) 8 = Some Null"
    unfolding b by (simp add: js_get_def)
  have 4: "calculateWinner (squares (history ?s ! nat 1)) = Null"
    unfolding b by (simp add: calculateWinner_def lines_def js_get_def truthy_def)
  have x: "\<not> selectXIsNext (jumpToMove 1 ?s)"
    by (simp add: selectXIsNext_def jumpToMove_def js_rem_def)
  from jump_then_move_truncates [OF 1 2 3 4]
  have "handleClick 8 (jumpToMove 1 ?s) =
          Inr (?s\<lparr>history := take (nat 1 + 1) (history ?s)
                   @ [\<lparr>squares = (squares (history ?s ! nat 1))
                                   [nat 8 := (if selectXIsNext (jumpToMove 1 ?s) then MarkX else MarkO)],
                       position = Some 8\<rparr>],
                  currentMove := 1 + 1\<rparr>)"
    by blast
  then show ?thesis
    using x by (simp add: eval_nat_numeral)
qed

text \<open>
  C8. When the current board holds anything but \<open>Null\<close> at \<open>p\<close> (a mark, or nothing
  because \<open>p\<close> is no position of the board), or the current board has a winner, a
  click on \<open>p\<close> leaves the whole state as it is, in both Boards.
\<close>

theorem handleClick_guard:
  assumes "selectCurrentSquares s = Inr cs"
    and "js_get cs p \<noteq> Some Null \<or> calculateWinner cs \<noteq> Null"
  shows "handleClick p s = Inr s \<and> handleCLick p s = Inr s"
proof -
  from assms(1) have "currentSquares s = Inr cs"
    by (simp add: selectCurrentSquares_def currentSquares_def)
  with assms show ?thesis
    by (auto simp: handleClick_def handleCLick_def)
qed


theorem handleClick_guard_witness:
  "selectCurrentSquares
     \<lparr>history = [initialRecord,
        \<lparr>squares = [Null, Null, Null, Null, MarkX, Null, Null, Null, Null], position = Some 4\<rparr>],
      currentMove = 1, wins = \<lparr>winsX = 0, winsO = 0\<rparr>, xStartsFirst = True\<rparr>
     = Inr [Null, Null, Null, Null, MarkX, Null, Null, Null, Null]
   \<and> js_get [Null, Null, Null, Null, MarkX, Null, Null, Null, Null] 4 \<noteq> Some Null
   \<and> handleClick 4
     \<lparr>history = [initialRecord,
        \<lparr>squares = [Null, Null, Null, Null, MarkX, Null, Null, Null, Null], position = Some 4\<rparr>],
      currentMove = 1, wins = \<lparr>winsX = 0, winsO = 0\<rparr>, xStartsFirst = True\<rparr>
     = Inr \<lparr>history = [initialRecord,
        \<lparr>squares = [Null, Null, Null, Null, MarkX, Null, Null, Null, Null], position = Some 4\<rparr>],
      currentMove = 1, wins = \<lparr>winsX = 0, winsO = 0\<rparr>, xStartsFirst = True\<rparr>
   \<and> handleCLick 4
     \<lparr>history = [initialRecord,
        \<lparr>squares = [Null, Null, Null, Null, MarkX, Null, Null, Null, Null], position = Some 4\<rparr>],
      currentMove = 1, wins = \<lparr>winsX = 0, winsO = 0\<rparr>, xStartsFirst = True\<rparr>
     = Inr \<lparr>history = [initialRecord,
        \<lparr>squares = [Null, Null, Null, Null, MarkX, Null, Null, Null, Null], position = Some 4\<rparr>],
      currentMove = 1, wins = \<lparr>winsX = 0, winsO = 0\<rparr>, xStartsFirst = True\<rparr>"
proof -
  let ?b = "[Null, Null, Null, Null, MarkX, Null, Null, Null, Null]"
  let ?s = "\<lparr>history = [initialRecord, \<lparr>squares = ?b, position = Some 4\<rparr>],
      currentMove = 1, wins = \<lparr>winsX = 0, winsO = 0\<rparr>, xStartsFirst = True\<rparr>"
  have 1: "selectCurrentSquares ?s = Inr ?b"
    by (simp add: selectCurrentSquares_def js_get_def)
  have 2: "js_get ?b 4 \<noteq> Some Null"
    by (simp add: js_get_def)
  then have 3: "js_get ?b 4 \<noteq> Some Null \<or> calculateWinner ?b \<noteq> Null" ..
  show ?thesis
    using handleClick_guard [OF 1 3] 1 2 by simp
qed

section \<open>Scores and the next round\<close>

lemma js_add1_exact: "js_add1 n = n + 1 \<longleftrightarrow> - (2 ^ 53) \<le> n \<and> n < 2 ^ 53"
  by (simp add: js_add1_def)

lemma js_add1_safe: "- (2 ^ 53) \<le> n \<Longrightarrow> n < 2 ^ 53 \<Longrightarrow> js_add1 n = n + 1"
  by (simp add: js_add1_def)

lemma playAgain_slice_MarkX:
  "playAgain_slice MarkX s =
     s\<lparr>wins := (wins s)\<lparr>winsX := js_add1 (winsX (wins s))\<rparr>, xStartsFirst := False,
       history := [initialRecord], currentMove := 0\<rparr>"
  by (simp add: playAgain_slice_def Let_def)

text \<open>Rounds won by X one after the other, from a tally that stays where doubles count
  exactly: the tally counts them.\<close>

lemma run_rounds_MarkX:
  "- (2 ^ 53) \<le> winsX (wins s) \<Longrightarrow> winsX (wins s) + int (Suc n) \<le> 2 ^ 53 \<Longrightarrow>
   run (replicate (Suc n) (StartNextRound MarkX)) s =
     Some (s\<lparr>wins := (wins s)\<lparr>winsX := winsX (wins s) + int (Suc n)\<rparr>, xStartsFirst := False,
             history := [initialRecord], currentMove := 0\<rparr>)"
proof (induction n arbitrary: s)
  case 0
  then have "js_add1 (winsX (wins s)) = winsX (wins s) + 1"
    by (intro js_add1_safe) simp_all
  then show ?case
    by (simp add: playAgain_slice_MarkX)
next
  case (Suc n)
  let ?s1 = "playAgain_slice MarkX s"
  from Suc.prems have one: "js_add1 (winsX (wins s)) = winsX (wins s) + 1"
    by (intro js_add1_safe) simp_all
  then have w1: "winsX (wins ?s1) = winsX (wins s) + 1"
    by (simp add: playAgain_slice_MarkX)
  have "run (replicate (Suc n) (StartNextRound MarkX)) ?s1 =
     Some (?s1\<lparr>wins := (wins ?s1)\<lparr>winsX := winsX (wins ?s1) + int (Suc n)\<rparr>, xStartsFirst := False,
             history := [initialRecord], currentMove := 0\<rparr>)"
    using Suc.prems by (intro Suc.IH) (simp_all add: w1)
  moreover have "run (replicate (Suc (Suc n)) (StartNextRound MarkX)) s =
      run (replicate (Suc n) (StartNextRound MarkX)) ?s1"
    by simp
  moreover have "?s1\<lparr>wins := (wins ?s1)\<lparr>winsX := winsX (wins ?s1) + int (Suc n)\<rparr>, xStartsFirst := False,
             history := [initialRecord], currentMove := 0\<rparr> =
      s\<lparr>wins := (wins s)\<lparr>winsX := winsX (wins s) + int (Suc (Suc n))\<rparr>, xStartsFirst := False,
             history := [initialRecord], currentMove := 0\<rparr>"
    by (simp add: playAgain_slice_MarkX one)
  ultimately show ?case
    by (simp only:)
qed

text \<open>
  C2, amended. \<open>playAgain\<close> with winner X sets the tally of X to the double sum
  \<open>tally + 1\<close> and the starting-player flag to false; with winner O it does so for the
  tally of O and sets the flag to true; with no winner it leaves both tallies and the
  flag as they are. The sum is the tally plus exactly 1 when
  \<open>-2^53 \<le> tally < 2^53\<close>, and only then. In the three cases the history becomes the
  single initial record (nine \<open>Null\<close> cells, no position) and the current index 0.
  This holds of the reducer and of the body of the first Board's function; the two
  buttons pass the winner of the current board.
\<close>

theorem playAgain_tally:
  "playAgain_slice MarkX s =
     s\<lparr>wins := (wins s)\<lparr>winsX := js_add1 (winsX (wins s))\<rparr>, xStartsFirst := False,
       history := [initialRecord], currentMove := 0\<rparr>
   \<and> playAgain_slice MarkO s =
     s\<lparr>wins := (wins s)\<lparr>winsO := js_add1 (winsO (wins s))\<rparr>, xStartsFirst := True,
       history := [initialRecord], currentMove := 0\<rparr>
   \<and> playAgain_slice Null s = s\<lparr>history := [initialRecord], currentMove := 0\<rparr>
   \<and> playAgain_with MarkX s = playAgain_slice MarkX s
   \<and> playAgain_with MarkO s = playAgain_slice MarkO s
   \<and> playAgain_with Null s = playAgain_slice Null s
   \<and> (js_add1 n = n + 1 \<longleftrightarrow> - (2 ^ 53) \<le> n \<and> n < 2 ^ 53)
   \<and> (- (2 ^ 53) \<le> winsX (wins s) \<and> winsX (wins s) < 2 ^ 53 \<longrightarrow>
        playAgain_slice MarkX s =
          s\<lparr>wins := (wins s)\<lparr>winsX := winsX (wins s) + 1\<rparr>, xStartsFirst := False,
            history := [initialRecord], currentMove := 0\<rparr>)
   \<and> (- (2 ^ 53) \<le> winsO (wins s) \<and> winsO (wins s) < 2 ^ 53 \<longrightarrow>
        playAgain_slice MarkO s =
          s\<lparr>wins := (wins s)\<lparr>winsO := winsO (wins s) + 1\<rparr>, xStartsFirst := True,
            history := [initialRecord], currentMove := 0\<rparr>)
   \<and> (\<forall>cs. currentSquares s = Inr cs \<longrightarrow> playAgain s = Inr (playAgain_with (calculateWinner cs) s))
   \<and> (\<forall>cs. selectCurrentSquares s = Inr cs \<longrightarrow>
         dispatchPlayAgain s = Inr (playAgain_slice (calculateWinner cs) s))
   \<and> squares initialRecord = replicate 9 Null \<and> position initialRecord = None"
proof (intro conjI impI allI)
  show x: "playAgain_slice MarkX s =
     s\<lparr>wins := (wins s)\<lparr>winsX := js_add1 (winsX (wins s))\<rparr>, xStartsFirst := False,
       history := [initialRecord], currentMove := 0\<rparr>"
    by (rule playAgain_slice_MarkX)
  show o: "playAgain_slice MarkO s =
     s\<lparr>wins := (wins s)\<lparr>winsO := js_add1 (winsO (wins s))\<rparr>, xStartsFirst := True,
       history := [initialRecord], currentMove := 0\<rparr>"
    by (simp add: playAgain_slice_def Let_def)
  show "playAgain_slice Null s = s\<lparr>history := [initialRecord], currentMove := 0\<rparr>"
    by (simp add: playAgain_slice_def)
  show "playAgain_with MarkX s = playAgain_slice MarkX s"
    "playAgain_with MarkO s = playAgain_slice MarkO s"
    "playAgain_with Null s = playAgain_slice Null s"
    by (rule playAgain_with_slice)+
  show "js_add1 n = n + 1 \<longleftrightarrow> - (2 ^ 53) \<le> n \<and> n < 2 ^ 53"
    by (rule js_add1_exact)
  show "playAgain_slice MarkX s =
          s\<lparr>wins := (wins s)\<lparr>winsX := winsX (wins s) + 1\<rparr>, xStartsFirst := False,
            history := [initialRecord], currentMove := 0\<rparr>"
    if "- (2 ^ 53) \<le> winsX (wins s) \<and> winsX (wins s) < 2 ^ 53"
    using that by (simp add: x js_add1_safe)
  show "playAgain_slice MarkO s =
          s\<lparr>wins := (wins s)\<lparr>winsO := winsO (wins s) + 1\<rparr>, xStartsFirst := True,
            history := [initialRecord], currentMove := 0\<rparr>"
    if "- (2 ^ 53) \<le> winsO (wins s) \<and> winsO (wins s) < 2 ^ 53"
    using that by (simp add: o js_add1_safe)
  show "playAgain s = Inr (playAgain_with (calculateWinner cs) s)"
    if "currentSquares s = Inr cs" for cs
    using that by (simp add: playAgain_def)
  show "dispatchPlayAgain s = Inr (playAgain_slice (calculateWinner cs) s)"
    if "selectCurrentSquares s = Inr cs" for cs
    using that by (simp add: dispatchPlayAgain_def)
  show "squares initialRecord = replicate 9 Null" "position initialRecord = None"
    by (simp_all add: initialRecord_def)
qed

theorem playAgain_tally_witness:
  "currentSquares
     \<lparr>history = [initialRecord,
        \<lparr>squares = [MarkX, MarkX, MarkX, MarkO, MarkO, Null, Null, Null, Null],
         position = Some 2\<rparr>],
      currentMove = 1, wins = \<lparr>winsX = 4, winsO = 2\<rparr>, xStartsFirst = True\<rparr>
     = Inr [MarkX, MarkX, MarkX, MarkO, MarkO, Null, Null, Null, Null]
   \<and> - (2 ^ 53) \<le> (4 :: int) \<and> (4 :: int) < 2 ^ 53
   \<and> playAgain
     \<lparr>history = [initialRecord,
        \<lparr>squares = [MarkX, MarkX, MarkX, MarkO, MarkO, Null, Null, Null, Null],
         position = Some 2\<rparr>],
      currentMove = 1, wins = \<lparr>winsX = 4, winsO = 2\<rparr>, xStartsFirst = True\<rparr>
     = Inr \<lparr>history = [initialRecord], currentMove = 0,
            wins = \<lparr>winsX = 5, winsO = 2\<rparr>, xStartsFirst = False\<rparr>"
proof -
  let ?b = "[MarkX, MarkX, MarkX, MarkO, MarkO, Null, Null, Null, Null]"
  let ?s = "\<lparr>history = [initialRecord, \<lparr>squares = ?b, position = Some 2\<rparr>],
      currentMove = 1, wins = \<lparr>winsX = 4, winsO = 2\<rparr>, xStartsFirst = True\<rparr>"
  have cs: "currentSquares ?s = Inr ?b"
    by (simp add: currentSquares_def js_get_def)
  have w: "calculateWinner ?b = MarkX"
    by (simp add: calculateWinner_def lines_def js_get_def truthy_def)
  have r: "- (2 ^ 53) \<le> winsX (wins ?s) \<and> winsX (wins ?s) < 2 ^ 53"
    by simp
  note t = playAgain_tally [of ?s]
  from t cs have "playAgain ?s = Inr (playAgain_with (calculateWinner ?b) ?s)"
    by blast
  moreover from t have "playAgain_with MarkX ?s = playAgain_slice MarkX ?s"
    by blast
  moreover from t r have "playAgain_slice MarkX ?s =
          ?s\<lparr>wins := (wins ?s)\<lparr>winsX := winsX (wins ?s) + 1\<rparr>, xStartsFirst := False,
              history := [initialRecord], currentMove := 0\<rparr>"
    by blast
  ultimately show ?thesis
    using cs w by simp
qed

text \<open>After \<open>2^53\<close> rounds won by X from the initial state the tally of X is \<open>2^53\<close>,
  and one more round won by X leaves it there, in both implementations.\<close>

theorem playAgain_tally_2_53_counterexample:
  "run (replicate (2 ^ 53) (StartNextRound MarkX)) initialState =
     Some \<lparr>history = [initialRecord], currentMove = 0,
           wins = \<lparr>winsX = 2 ^ 53, winsO = 0\<rparr>, xStartsFirst = False\<rparr>
   \<and> playAgain_slice MarkX
       \<lparr>history = [initialRecord], currentMove = 0,
        wins = \<lparr>winsX = 2 ^ 53, winsO = 0\<rparr>, xStartsFirst = False\<rparr> =
     \<lparr>history = [initialRecord], currentMove = 0,
      wins = \<lparr>winsX = 2 ^ 53, winsO = 0\<rparr>, xStartsFirst = False\<rparr>
   \<and> playAgain_with MarkX
       \<lparr>history = [initialRecord], currentMove = 0,
        wins = \<lparr>winsX = 2 ^ 53, winsO = 0\<rparr>, xStartsFirst = False\<rparr> =
     \<lparr>history = [initialRecord], currentMove = 0,
      wins = \<lparr>winsX = 2 ^ 53, winsO = 0\<rparr>, xStartsFirst = False\<rparr>
   \<and> (2 ^ 53 :: int) \<noteq> 2 ^ 53 + 1"
proof (intro conjI)
  have n: "(2 :: nat) ^ 53 = Suc (2 ^ 53 - 1)"
    by simp
  have "run (replicate (Suc (2 ^ 53 - 1)) (StartNextRound MarkX)) initialState =
     Some (initialState\<lparr>wins := (wins initialState)
               \<lparr>winsX := winsX (wins initialState) + int (Suc (2 ^ 53 - 1))\<rparr>,
             xStartsFirst := False, history := [initialRecord], currentMove := 0\<rparr>)"
    by (rule run_rounds_MarkX) (simp_all add: initialState_def)
  moreover have "initialState\<lparr>wins := (wins initialState)
               \<lparr>winsX := winsX (wins initialState) + int (Suc (2 ^ 53 - 1))\<rparr>,
             xStartsFirst := False, history := [initialRecord], currentMove := 0\<rparr> =
      \<lparr>history = [initialRecord], currentMove = 0,
           wins = \<lparr>winsX = 2 ^ 53, winsO = 0\<rparr>, xStartsFirst = False\<rparr>"
    by (simp add: initialState_def)
  ultimately show "run (replicate (2 ^ 53) (StartNextRound MarkX)) initialState =
     Some \<lparr>history = [initialRecord], currentMove = 0,
           wins = \<lparr>winsX = 2 ^ 53, winsO = 0\<rparr>, xStartsFirst = False\<rparr>"
    by (simp only: n [symmetric])
  show "playAgain_slice MarkX
       \<lparr>history = [initialRecord], currentMove = 0,
        wins = \<lparr>winsX = 2 ^ 53, winsO = 0\<rparr>, xStartsFirst = False\<rparr> =
     \<lparr>history = [initialRecord], currentMove = 0,
      wins = \<lparr>winsX = 2 ^ 53, winsO = 0\<rparr>, xStartsFirst = False\<rparr>"
    by (simp add: playAgain_slice_def js_add1_def Let_def)
  show "playAgain_with MarkX
       \<lparr>history = [initialRecord], currentMove = 0,
        wins = \<lparr>winsX = 2 ^ 53, winsO = 0\<rparr>, xStartsFirst = False\<rparr> =
     \<lparr>history = [initialRecord], currentMove = 0,
      wins = \<lparr>winsX = 2 ^ 53, winsO = 0\<rparr>, xStartsFirst = False\<rparr>"
    by (simp add: playAgain_with_def resetGame_def js_add1_def Let_def)
  show "(2 ^ 53 :: int) \<noteq> 2 ^ 53 + 1"
    by simp
qed

section \<open>Whose turn it is\<close>

text \<open>
  C4. For every current index and starting-player flag (a current index points into
  the history, so it is not negative): the player to move is X when the flag is true
  and the index is even, O when the flag is true and the index is odd, O when the flag
  is false and the index is even, X when the flag is false and the index is odd. The
  selector of the store and the first Board compute the same.
\<close>

theorem selectXIsNext_parity:
  assumes "0 \<le> currentMove s"
  shows "nextPlayer_slice s =
           (if xStartsFirst s then (if even (currentMove s) then MarkX else MarkO)
            else (if even (currentMove s) then MarkO else MarkX))
         \<and> nextPlayer s = nextPlayer_slice s
         \<and> selectXIsNext s = (if xStartsFirst s then even (currentMove s) else odd (currentMove s))
         \<and> xIsNext s = selectXIsNext s"
  using assms
  by (simp add: nextPlayer_slice_def nextPlayer_def selectXIsNext_def xIsNext_def
      js_rem_2_even js_rem_2_odd)

theorem selectXIsNext_parity_witness:
  "0 \<le> currentMove (jumpToMove 3 (playAgain_slice MarkX initialState))
   \<and> \<not> xStartsFirst (jumpToMove 3 (playAgain_slice MarkX initialState))
   \<and> nextPlayer_slice (jumpToMove 3 (playAgain_slice MarkX initialState)) = MarkX
   \<and> nextPlayer (jumpToMove 3 (playAgain_slice MarkX initialState)) = MarkX
   \<and> nextPlayer_slice initialState = MarkX
   \<and> nextPlayer_slice (jumpToMove 1 initialState) = MarkO
   \<and> nextPlayer_slice (playAgain_slice MarkX initialState) = MarkO"
proof -
  let ?s = "jumpToMove 3 (playAgain_slice MarkX initialState)"
  have h: "0 \<le> currentMove ?s" "0 \<le> currentMove initialState"
    "0 \<le> currentMove (jumpToMove 1 initialState)"
    "0 \<le> currentMove (playAgain_slice MarkX initialState)"
    by (simp_all add: jumpToMove_def playAgain_slice_def initialState_def)
  show ?thesis
    using selectXIsNext_parity [OF h(1)] selectXIsNext_parity [OF h(2)]
      selectXIsNext_parity [OF h(3)] selectXIsNext_parity [OF h(4)] h(1)
    by (simp add: jumpToMove_def playAgain_slice_def initialState_def)
qed

section \<open>Jumping\<close>

text \<open>
  C10. \<open>jumpToMove\<close> and \<open>jumpTo\<close> check nothing: for every integer they set the
  current index to it and leave the history, the tallies and the flag as they are.
  The read of the current board after the jump succeeds exactly when
  \<open>0 \<le> index < length history\<close>, and throws otherwise.
\<close>

theorem jumpToMove_unchecked:
  "jumpToMove k s = s\<lparr>currentMove := k\<rparr>
   \<and> jumpTo k s = s\<lparr>currentMove := k\<rparr>
   \<and> currentMove (jumpToMove k s) = k \<and> history (jumpToMove k s) = history s
   \<and> wins (jumpToMove k s) = wins s \<and> xStartsFirst (jumpToMove k s) = xStartsFirst s
   \<and> ((\<exists>cs. selectCurrentSquares (jumpToMove k s) = Inr cs) \<longleftrightarrow>
        (0 \<le> k \<and> k < int (length (history s))))
   \<and> ((\<exists>cs. currentSquares (jumpTo k s) = Inr cs) \<longleftrightarrow>
        (0 \<le> k \<and> k < int (length (history s))))
   \<and> (selectCurrentSquares (jumpToMove k s) = Inl TypeError \<longleftrightarrow>
        \<not> (0 \<le> k \<and> k < int (length (history s))))"
  by (simp add: jumpToMove_def jumpTo_def selectCurrentSquares_def currentSquares_def
      js_get_def)

theorem jumpToMove_unchecked_witness:
  "currentMove (jumpToMove (- 3) initialState) = - 3
   \<and> history (jumpToMove (- 3) initialState) = history initialState
   \<and> selectCurrentSquares (jumpToMove (- 3) initialState) = Inl TypeError
   \<and> selectCurrentSquares (jumpToMove 1 initialState) = Inl TypeError
   \<and> (\<exists>cs. selectCurrentSquares (jumpToMove 0 initialState) = Inr cs)"
proof -
  have "\<not> (0 \<le> (- 3 :: int) \<and> - 3 < int (length (history initialState)))"
    by simp
  moreover have "\<not> (0 \<le> (1 :: int) \<and> 1 < int (length (history initialState)))"
    by (simp add: initialState_def)
  moreover have "0 \<le> (0 :: int) \<and> 0 < int (length (history initialState))"
    by (simp add: initialState_def)
  ultimately show ?thesis
    using jumpToMove_unchecked [of "- 3" initialState] jumpToMove_unchecked [of 1 initialState]
      jumpToMove_unchecked [of 0 initialState]
    by blast
qed

section \<open>The history keeps its first record\<close>

lemma history_ok_initial: "history_ok initialState"
  by (simp add: history_ok_def initialState_def)

lemma history_ok_reset: "history_ok (s\<lparr>history := [initialRecord], currentMove := 0\<rparr>)"
  by (simp add: history_ok_def)

lemma history_ok_playAgain: "history_ok (playAgain_slice w s)"
  by (simp add: playAgain_slice_def Let_def history_ok_def)

lemma history_ok_makeMove:
  assumes "history_ok s"
  shows "history_ok (makeMove sq pos s)"
proof -
  from assms have cm: "0 \<le> currentMove s" "currentMove s < int (length (history s))"
    and ne: "history s \<noteq> []" and h0: "hd (history s) = initialRecord"
    by (simp_all add: history_ok_def)
  have mm: "makeMove sq pos s =
           s\<lparr>history := take (nat (currentMove s) + 1) (history s)
                          @ [\<lparr>squares = sq, position = Some pos\<rparr>],
             currentMove := currentMove s + 1\<rparr>"
    using cm by (rule makeMove_in_range)
  have "hd (take (nat (currentMove s) + 1) (history s)) = initialRecord"
    using ne h0 by (cases "history s") simp_all
  moreover have "take (nat (currentMove s) + 1) (history s) \<noteq> []"
    using ne by simp
  moreover have "int (length (take (nat (currentMove s) + 1) (history s))) = currentMove s + 1"
    using cm by (auto simp: min_def)
  ultimately show ?thesis
    using cm by (simp add: mm history_ok_def)
qed

lemma history_ok_step:
  assumes "history_ok s" and "step a s = Some s'"
  shows "history_ok s'"
proof (cases a)
  case (ApplyMove p)
  with assms(2) obtain cs where cs: "selectCurrentSquares s = Inr cs"
    and legal: "js_get cs p = Some Null" "calculateWinner cs = Null"
    and click: "handleClick p s = Inr s'"
    by (auto split: sum.splits if_splits)
  from click cs legal have "s' = makeMove (cs[nat p := (if selectXIsNext s then MarkX else MarkO)]) p s"
    by (simp add: handleClick_def)
  with assms(1) show ?thesis
    by (simp add: history_ok_makeMove)
next
  case (JumpTo k)
  with assms show ?thesis
    by (auto simp: history_ok_def jumpToMove_def split: if_splits)
next
  case ResetRound
  with assms(2) show ?thesis
    by (auto simp: resetGame_slice_def history_ok_reset)
next
  case (StartNextRound w)
  with assms(2) show ?thesis
    by (auto simp: history_ok_playAgain)
qed

lemma history_ok_run: "history_ok s \<Longrightarrow> run as s = Some s' \<Longrightarrow> history_ok s'"
proof (induction as arbitrary: s)
  case Nil
  then show ?case by simp
next
  case (Cons a as)
  from Cons.prems(2) obtain s1 where s1: "step a s = Some s1" and rest: "run as s1 = Some s'"
    by (auto split: option.splits)
  from Cons.prems(1) s1 have "history_ok s1"
    by (rule history_ok_step)
  then show ?case
    using rest by (rule Cons.IH)
qed

text \<open>
  C6. After every sequence of transitions from the initial state (moves and jumps
  under their preconditions, resets, next rounds with any winner), the history is not
  empty and its record 0 is the initial record: nine \<open>Null\<close> cells and no position.
  The current index stays an index of the history.
\<close>

theorem history_head_initial:
  assumes "run as initialState = Some s"
  shows "history s \<noteq> [] \<and> history s ! 0 = initialRecord
         \<and> squares initialRecord = replicate 9 Null \<and> position initialRecord = None
         \<and> 0 \<le> currentMove s \<and> currentMove s < int (length (history s))"
proof -
  have "history_ok s"
    using history_ok_initial assms by (rule history_ok_run)
  then show ?thesis
    by (auto simp: history_ok_def hd_conv_nth initialRecord_def)
qed

theorem history_head_initial_witness:
  "run [ApplyMove 4, ApplyMove 0, JumpTo 1, ApplyMove 8] initialState =
     Some \<lparr>history = [initialRecord,
          \<lparr>squares = [Null, Null, Null, Null, MarkX, Null, Null, Null, Null], position = Some 4\<rparr>,
          \<lparr>squares = [Null, Null, Null, Null, MarkX, Null, Null, Null, MarkO], position = Some 8\<rparr>],
        currentMove = 2, wins = \<lparr>winsX = 0, winsO = 0\<rparr>, xStartsFirst = True\<rparr>
   \<and> history \<lparr>history = [initialRecord,
          \<lparr>squares = [Null, Null, Null, Null, MarkX, Null, Null, Null, Null], position = Some 4\<rparr>,
          \<lparr>squares = [Null, Null, Null, Null, MarkX, Null, Null, Null, MarkO], position = Some 8\<rparr>],
        currentMove = 2, wins = \<lparr>winsX = 0, winsO = 0\<rparr>, xStartsFirst = True\<rparr> ! 0
       = initialRecord
   \<and> run [ApplyMove 4, StartNextRound MarkX, ApplyMove 0, ResetRound, JumpTo 0] initialState =
     Some \<lparr>history = [initialRecord], currentMove = 0,
           wins = \<lparr>winsX = 1, winsO = 0\<rparr>, xStartsFirst = False\<rparr>"
proof -
  let ?s = "\<lparr>history = [initialRecord,
          \<lparr>squares = [Null, Null, Null, Null, MarkX, Null, Null, Null, Null], position = Some 4\<rparr>,
          \<lparr>squares = [Null, Null, Null, Null, MarkX, Null, Null, Null, MarkO], position = Some 8\<rparr>],
        currentMove = 2, wins = \<lparr>winsX = 0, winsO = 0\<rparr>, xStartsFirst = True\<rparr>"
  have 1: "run [ApplyMove 4, ApplyMove 0, JumpTo 1, ApplyMove 8] initialState = Some ?s"
    by (simp add: eval_defs jumpToMove_def)
  have 2: "run [ApplyMove 4, StartNextRound MarkX, ApplyMove 0, ResetRound, JumpTo 0] initialState =
     Some \<lparr>history = [initialRecord], currentMove = 0,
           wins = \<lparr>winsX = 1, winsO = 0\<rparr>, xStartsFirst = False\<rparr>"
    by (simp add: eval_defs jumpToMove_def playAgain_slice_def resetGame_slice_def)
  from history_head_initial [OF 1] have "history ?s ! 0 = initialRecord"
    by blast
  with 1 2 show ?thesis
    by blast
qed

section \<open>Who made which move\<close>

lemma moves_player_True: "moves_player True n = (if odd n then MarkX else MarkO)"
  by (simp add: moves_player_def js_rem_2_odd)

text \<open>
  C7, amended. In a round where the starting-player flag is true, the moves that give
  the boards at history indices 1, 3, 5, 7, 9 are made by X and those at indices 2, 4,
  6, 8 by O: so says the label of the move list, and so does a legal click, which
  writes at the new index the mark that the label of that index names.
\<close>

theorem flag_true_moves:
  "(\<forall>i \<in> {1, 3, 5, 7, 9}. moves_player True i = MarkX)
   \<and> (\<forall>i \<in> {2, 4, 6, 8}. moves_player True i = MarkO)
   \<and> (xStartsFirst s \<and> selectCurrentSquares s = Inr cs \<and> js_get cs p = Some Null
        \<and> calculateWinner cs = Null \<longrightarrow>
      (\<exists>s'. handleClick p s = Inr s' \<and> handleCLick p s = Inr s'
         \<and> currentMove s' = currentMove s + 1
         \<and> squares (history s' ! nat (currentMove s')) ! nat p
             = (if odd (currentMove s') then MarkX else MarkO)
         \<and> squares (history s' ! nat (currentMove s')) ! nat p
             = moves_player True (nat (currentMove s'))))"
proof (intro conjI impI)
  show "\<forall>i \<in> {1, 3, 5, 7, 9}. moves_player True i = MarkX"
    by (simp add: moves_player_True)
  show "\<forall>i \<in> {2, 4, 6, 8}. moves_player True i = MarkO"
    by (simp add: moves_player_True)
next
  assume a: "xStartsFirst s \<and> selectCurrentSquares s = Inr cs \<and> js_get cs p = Some Null
        \<and> calculateWinner cs = Null"
  define m where "m = (if selectXIsNext s then MarkX else MarkO)"
  define s' where "s' = s\<lparr>history := take (nat (currentMove s) + 1) (history s)
                   @ [\<lparr>squares = cs[nat p := m], position = Some p\<rparr>],
              currentMove := currentMove s + 1\<rparr>"
  from a have cm: "0 \<le> currentMove s" "currentMove s < int (length (history s))"
    by (simp_all add: selectCurrentSquares_Inr)
  from a have p: "nat p < length cs"
    by (auto simp: js_get_Some_iff)
  have click: "handleClick p s = Inr s'"
    unfolding s'_def m_def using a by (intro handleClick_legal) simp_all
  have cm': "currentMove s' = currentMove s + 1"
    by (simp add: s'_def)
  have len: "length (take (nat (currentMove s) + 1) (history s)) = nat (currentMove s + 1)"
    using cm by (auto simp: min_def)
  have "history s' ! nat (currentMove s + 1) = \<lparr>squares = cs[nat p := m], position = Some p\<rparr>"
    unfolding s'_def using len by (simp add: nth_append)
  then have cell: "squares (history s' ! nat (currentMove s')) ! nat p = m"
    using p by (simp add: cm')
  have mark: "m = (if odd (currentMove s') then MarkX else MarkO)"
    using a cm by (simp add: m_def cm' selectXIsNext_def js_rem_2_even)
  have "odd (nat (currentMove s')) = odd (currentMove s')"
    using cm by (simp add: cm' even_nat_iff)
  then have label: "moves_player True (nat (currentMove s')) = m"
    by (simp add: moves_player_True mark)
  have "handleClick p s = Inr s' \<and> handleCLick p s = Inr s'
         \<and> currentMove s' = currentMove s + 1
         \<and> squares (history s' ! nat (currentMove s')) ! nat p
             = (if odd (currentMove s') then MarkX else MarkO)
         \<and> squares (history s' ! nat (currentMove s')) ! nat p
             = moves_player True (nat (currentMove s'))"
    unfolding cell label handleCLick_handleClick
    using click cm' mark by (intro conjI refl)
  then show "\<exists>s'. handleClick p s = Inr s' \<and> handleCLick p s = Inr s'
         \<and> currentMove s' = currentMove s + 1
         \<and> squares (history s' ! nat (currentMove s')) ! nat p
             = (if odd (currentMove s') then MarkX else MarkO)
         \<and> squares (history s' ! nat (currentMove s')) ! nat p
             = moves_player True (nat (currentMove s'))"
    by blast
qed

theorem flag_true_moves_witness:
  "moves_player True 1 = MarkX \<and> moves_player True 9 = MarkX \<and> moves_player True 2 = MarkO
   \<and> xStartsFirst initialState
   \<and> selectCurrentSquares initialState = Inr (replicate 9 Null)
   \<and> js_get (replicate 9 Null) 4 = Some Null
   \<and> calculateWinner (replicate 9 Null) = Null
   \<and> (\<exists>s'. handleClick 4 initialState = Inr s' \<and> handleCLick 4 initialState = Inr s'
         \<and> currentMove s' = currentMove initialState + 1
         \<and> squares (history s' ! nat (currentMove s')) ! nat 4
             = (if odd (currentMove s') then MarkX else MarkO)
         \<and> squares (history s' ! nat (currentMove s')) ! nat 4
             = moves_player True (nat (currentMove s')))"
proof -
  have 0: "xStartsFirst initialState"
    by (simp add: initialState_def)
  have 1: "selectCurrentSquares initialState = Inr (replicate 9 Null)"
    by (simp add: selectCurrentSquares_def initialState_def initialRecord_def js_get_def)
  have 2: "js_get (replicate 9 Null) 4 = Some Null"
    by (simp add: js_get_def)
  have 3: "calculateWinner (replicate 9 Null) = Null"
    by (simp add: calculateWinner_def lines_def js_get_def truthy_def)
  note t = flag_true_moves [of initialState "replicate 9 Null" 4]
  from t have "moves_player True 1 = MarkX" "moves_player True 9 = MarkX"
    "moves_player True 2 = MarkO"
    by simp_all
  moreover from t 0 1 2 3
  have "\<exists>s'. handleClick 4 initialState = Inr s' \<and> handleCLick 4 initialState = Inr s'
         \<and> currentMove s' = currentMove initialState + 1
         \<and> squares (history s' ! nat (currentMove s')) ! nat 4
             = (if odd (currentMove s') then MarkX else MarkO)
         \<and> squares (history s' ! nat (currentMove s')) ! nat 4
             = moves_player True (nat (currentMove s'))"
    by blast
  ultimately show ?thesis
    using 0 1 2 3 by (intro conjI)
qed

text \<open>The first move of the first round: the board at index 1 holds X, and the label
  of index 1 is X, not O.\<close>

theorem flag_true_first_move_counterexample:
  "xStartsFirst initialState
   \<and> handleClick 0 initialState =
       Inr \<lparr>history = [initialRecord,
                       \<lparr>squares = [MarkX, Null, Null, Null, Null, Null, Null, Null, Null],
                        position = Some 0\<rparr>],
            currentMove = 1, wins = \<lparr>winsX = 0, winsO = 0\<rparr>, xStartsFirst = True\<rparr>
   \<and> moves_player True 1 = MarkX \<and> MarkX \<noteq> MarkO"
  by (simp add: initialState_def handleClick_def selectCurrentSquares_def js_get_def
      initialRecord_def calculateWinner_def lines_def truthy_def selectXIsNext_def js_rem_def
      makeMove_def js_slice0_def moves_player_def Let_def eval_nat_numeral)

end
